theory Spec2Isabelle
  imports Complex_Main "HOL-Library.List_Lexorder" "HOL-Library.Char_ord"
begin

section \<open>Data model\<close>

text \<open>
  The deal-evaluation pipeline of the flip finder: \<^verbatim>\<open>analysis/deal_analyzer.py\<close>,
  \<^verbatim>\<open>analysis/property_scorer.py\<close>, \<^verbatim>\<open>analysis/repair_estimator.py\<close>, the comp filter
  and ARV estimator of \<^verbatim>\<open>app.py\<close>, over the records of \<^verbatim>\<open>models/\<close> and the
  constants of \<^verbatim>\<open>config/settings.py\<close>.

  Python's \<^verbatim>\<open>float\<close> and \<^verbatim>\<open>int\<close> values are modelled as \<^typ>\<open>real\<close> and \<^typ>\<open>int\<close>:
  arithmetic is exact, rounding is not modelled. A Python exception is a value
  of \<open>error\<close>; a function that can raise returns \<open>error + 'a\<close>.
\<close>

datatype error = ZeroDivisionError

text \<open>
  Python's \<^verbatim>\<open>a / b\<close> on \<^verbatim>\<open>float\<close>, the type the signatures declare: raises when the
  divisor is zero. (On a \<^verbatim>\<open>numpy.float64\<close> the same division returns \<^verbatim>\<open>inf\<close> or
  \<^verbatim>\<open>nan\<close> with a warning and does not raise; the model follows the declared type.)
\<close>

definition truediv :: "real \<Rightarrow> real \<Rightarrow> error + real" where
  "truediv a b = (if b = 0 then Inl ZeroDivisionError else Inr (a / b))"

text \<open>Sequencing: an exception of the first computation ends the whole.\<close>

definition and_then :: "error + 'a \<Rightarrow> ('a \<Rightarrow> error + 'b) \<Rightarrow> error + 'b" where
  "and_then r f = (case r of Inl e \<Rightarrow> Inl e | Inr v \<Rightarrow> f v)"

text \<open>Python's \<^verbatim>\<open>int(x)\<close> on a float: truncation towards zero.\<close>

definition py_int :: "real \<Rightarrow> int" where
  "py_int x = (if 0 \<le> x then \<lfloor>x\<rfloor> else \<lceil>x\<rceil>)"

text \<open>
  \<^verbatim>\<open>config/settings.py\<close>. The module is mutable at run time (the dashboard writes the
  repair costs, the flip months and the mortgage rate into it before each
  analysis), so the analysis functions take the settings as an argument. The
  record holds the entries the pipeline reads.
\<close>

record settings =
  base_sqft_cost :: real
  kitchen :: real
  bathroom :: real
  purchase_percentage :: real
  seller_closing_percentage :: real
  agent_commission :: real
  mortgage_rate :: real
  property_tax_rate :: real
  insurance_rate :: real
  monthly_utilities :: real
  AVERAGE_FLIP_MONTHS :: real
  profit_weight :: real
  roi_weight :: real
  repair_cost_weight :: real
  dom_weight :: real
  opportunity_keywords_weight :: real
  meets_70_rule_weight :: real

definition default_settings :: settings where
  "default_settings = \<lparr>
     base_sqft_cost = 20, kitchen = 15000, bathroom = 7500,
     purchase_percentage = 3 / 100, seller_closing_percentage = 2 / 100,
     agent_commission = 6 / 100,
     mortgage_rate = 7 / 100, property_tax_rate = 15 / 1000,
     insurance_rate = 5 / 1000, monthly_utilities = 200,
     AVERAGE_FLIP_MONTHS = 4,
     profit_weight = 40, roi_weight = 30, repair_cost_weight = 15,
     dom_weight = 10, opportunity_keywords_weight = 5,
     meets_70_rule_weight = 5 \<rparr>"

text \<open>
  A comparable sale, the dictionary built by \<^verbatim>\<open>market_data.add_comps\<close>. Every key
  is present in a dictionary built there, so \<^verbatim>\<open>comp.get('square_feet', 0)\<close> reads
  the field. The sale date is the string \<^verbatim>\<open>strftime('%Y-%m-%d')\<close> produced.
\<close>

record Comp =
  c_address :: string
  c_sale_date :: string
  c_price :: real
  c_square_feet :: real
  c_price_per_sqft :: real
  c_bedrooms :: int
  c_bathrooms :: real
  c_year_built :: int
  c_distance :: real

text \<open>
  \<^verbatim>\<open>models/property.py\<close>, class \<^verbatim>\<open>Property\<close>, with the two attributes that
  \<^verbatim>\<open>__post_init__\<close> adds: \<open>price_per_sqft\<close> and \<open>age\<close> (\<open>None\<close> when the year built
  is not positive). The enrichment blobs are opaque to the pipeline.
\<close>

record Property =
  mls_id :: string
  address :: string
  city :: string
  state :: string
  zip_code :: string
  list_price :: real
  bedrooms :: int
  bathrooms :: real
  square_feet :: real
  lot_size :: "real option"
  year_built :: int
  days_on_market :: int
  description :: string
  latitude :: real
  longitude :: real
  photos :: "string list"
  opportunity_keywords :: "string list"
  comps :: "Comp list"
  tax_data :: "(string \<times> string) list"
  neighborhood_data :: "(string \<times> string) list"
  estimated_repair_cost :: real
  estimated_arv :: real
  estimated_profit :: real
  estimated_roi :: real
  price_per_sqft :: real
  age :: "int option"

section \<open>Coarse repair estimator\<close>

text \<open>\<^verbatim>\<open>deal_analyzer.estimate_repairs\<close>, the age factor (an if/elif chain).\<close>

definition age_factor :: "int option \<Rightarrow> real" where
  "age_factor a =
     (case a of None \<Rightarrow> 1
      | Some n \<Rightarrow> if n > 50 then 15 / 10
                  else if n > 30 then 13 / 10
                  else if n > 15 then 11 / 10
                  else 1)"

definition high_repair_keywords :: "string list" where
  "high_repair_keywords = [''fixer'', ''needs work'', ''tlc'', ''handyman'', ''distressed'']"

definition moderate_repair_keywords :: "string list" where
  "moderate_repair_keywords = [''dated'', ''original'', ''renovate'', ''update'']"

text \<open>
  The loop \<^verbatim>\<open>for keyword in ks: if keyword in kws: condition_factor = v; break\<close>,
  started with the factor \<open>cf\<close>: list membership of each keyword in turn, leaving
  at the first hit.
\<close>

fun keyword_loop :: "string list \<Rightarrow> string list \<Rightarrow> real \<Rightarrow> real \<Rightarrow> real" where
  "keyword_loop [] kws cf v = cf"
| "keyword_loop (k # ks) kws cf v = (if k \<in> set kws then v else keyword_loop ks kws cf v)"

definition condition_factor :: "string list \<Rightarrow> real" where
  "condition_factor kws =
     (let cf = keyword_loop high_repair_keywords kws 1 (15 / 10)
      in if cf = 1 then keyword_loop moderate_repair_keywords kws cf (125 / 100) else cf)"

definition estimate_repairs :: "settings \<Rightarrow> Property \<Rightarrow> real" where
  "estimate_repairs S p =
     (let repair_estimate =
            square_feet p * base_sqft_cost S * age_factor (age p) * condition_factor (opportunity_keywords p);
          repair_estimate =
            (case age p of
               None \<Rightarrow> repair_estimate
             | Some n \<Rightarrow>
                 if n \<noteq> 0 \<and> n > 20
                 then repair_estimate
                      + kitchen S * real_of_int (min 1 (py_int (square_feet p / 1500)))
                      + bathroom S * min (bathrooms p) 2
                 else repair_estimate)
      in repair_estimate * (11 / 10))"

section \<open>Deal evaluator\<close>

text \<open>The dictionary returned by \<^verbatim>\<open>calculate_closing_costs\<close>.\<close>

record closing_costs_dict =
  cc_purchase_closing :: real
  cc_agent_commission :: real
  cc_seller_closing :: real
  cc_total :: real

definition calculate_closing_costs :: "settings \<Rightarrow> real \<Rightarrow> real \<Rightarrow> closing_costs_dict" where
  "calculate_closing_costs S purchase_price sale_price =
     (let purchase_closing = purchase_price * purchase_percentage S;
          agent = sale_price * agent_commission S;
          seller_closing = sale_price * seller_closing_percentage S
      in \<lparr> cc_purchase_closing = purchase_closing, cc_agent_commission = agent,
           cc_seller_closing = seller_closing,
           cc_total = purchase_closing + agent + seller_closing \<rparr>)"

definition calculate_holding_costs :: "settings \<Rightarrow> real \<Rightarrow> real \<Rightarrow> real" where
  "calculate_holding_costs S purchase_price months =
     (let monthly_costs =
            [purchase_price * mortgage_rate S / 12,
             purchase_price * property_tax_rate S / 12,
             purchase_price * insurance_rate S / 12,
             monthly_utilities S];
          total_monthly = sum_list monthly_costs
      in total_monthly * months)"

text \<open>The dictionary returned by \<^verbatim>\<open>Property.to_dict\<close>.\<close>

record PropertyDict =
  pd_mls_id :: string
  pd_address :: string
  pd_city :: string
  pd_state :: string
  pd_zip_code :: string
  pd_list_price :: real
  pd_bedrooms :: int
  pd_bathrooms :: real
  pd_square_feet :: real
  pd_lot_size :: "real option"
  pd_year_built :: int
  pd_age :: "int option"
  pd_days_on_market :: int
  pd_price_per_sqft :: real
  pd_latitude :: real
  pd_longitude :: real
  pd_opportunity_keywords :: "string list"
  pd_estimated_repair_cost :: real
  pd_estimated_arv :: real
  pd_estimated_profit :: real
  pd_estimated_roi :: real

definition to_dict :: "Property \<Rightarrow> PropertyDict" where
  "to_dict p = \<lparr>
     pd_mls_id = mls_id p, pd_address = address p, pd_city = city p, pd_state = state p,
     pd_zip_code = zip_code p, pd_list_price = list_price p, pd_bedrooms = bedrooms p,
     pd_bathrooms = bathrooms p, pd_square_feet = square_feet p, pd_lot_size = lot_size p,
     pd_year_built = year_built p, pd_age = age p, pd_days_on_market = days_on_market p,
     pd_price_per_sqft = price_per_sqft p, pd_latitude = latitude p,
     pd_longitude = longitude p, pd_opportunity_keywords = opportunity_keywords p,
     pd_estimated_repair_cost = estimated_repair_cost p,
     pd_estimated_arv = estimated_arv p, pd_estimated_profit = estimated_profit p,
     pd_estimated_roi = estimated_roi p \<rparr>"

definition get_full_address :: "Property \<Rightarrow> string" where
  "get_full_address p = address p @ '', '' @ city p @ '', '' @ state p @ '' '' @ zip_code p"

text \<open>
  The deal dictionary built by \<^verbatim>\<open>analyze_deal\<close>, with the key \<^verbatim>\<open>score\<close> that
  \<^verbatim>\<open>score_deals\<close> writes (\<^verbatim>\<open>models/deal.py\<close> gives it the default 0.0; the scorer
  never reads it before writing it).
\<close>

record Deal =
  property_id :: string
  deal_address :: string
  deal_list_price :: real
  arv :: real
  repair_costs :: real
  closing_costs :: real
  holding_costs :: real
  total_project_cost :: real
  potential_profit :: real
  roi :: real
  meets_criteria :: bool
  meets_70_percent_rule :: bool
  max_purchase_price :: real
  property_data :: PropertyDict
  score :: real

text \<open>
  \<^verbatim>\<open>analyze_deal\<close> mutates the property it is given and returns the deal, or
  raises at the division of line 114. The model returns the property as the
  call leaves it, in both cases, and the deal or the exception.
\<close>

definition analyze_deal ::
  "settings \<Rightarrow> Property \<Rightarrow> real \<Rightarrow> real \<Rightarrow> real \<Rightarrow> Property \<times> (error + Deal)" where
  "analyze_deal S p0 arv_in repair_costs_in min_roi =
     (let p1 = p0\<lparr>estimated_repair_cost := repair_costs_in\<rparr>;
          p2 = p1\<lparr>estimated_arv := arv_in\<rparr>;
          cc = calculate_closing_costs S (list_price p2) arv_in;
          holding_period = AVERAGE_FLIP_MONTHS S;
          hc = calculate_holding_costs S (list_price p2) holding_period;
          total = list_price p2 + repair_costs_in + cc_total cc + hc;
          profit = arv_in - total;
          p3 = p2\<lparr>estimated_profit := profit\<rparr>
      in case truediv profit total of
           Inl e \<Rightarrow> (p3, Inl e)
         | Inr q \<Rightarrow>
             (let r = q * 100;
                  p4 = p3\<lparr>estimated_roi := r\<rparr>;
                  criteria = (r \<ge> min_roi);
                  max_price = (7 / 10) * arv_in - repair_costs_in;
                  rule70 = (list_price p4 \<le> max_price)
              in (p4, Inr \<lparr>
                   property_id = mls_id p4,
                   deal_address = get_full_address p4,
                   deal_list_price = list_price p4,
                   arv = arv_in,
                   repair_costs = repair_costs_in,
                   closing_costs = cc_total cc,
                   holding_costs = hc,
                   total_project_cost = total,
                   potential_profit = profit,
                   roi = r,
                   meets_criteria = criteria,
                   meets_70_percent_rule = rule70,
                   max_purchase_price = max_price,
                   property_data = to_dict p4,
                   score = 0 \<rparr>)))"

section \<open>ARV estimator\<close>

text \<open>
  \<^verbatim>\<open>numpy.mean\<close> and \<^verbatim>\<open>numpy.std\<close> (population standard deviation, \<^verbatim>\<open>ddof=0\<close>) on a
  list; both are only called on non-empty lists.
\<close>

definition np_mean :: "real list \<Rightarrow> real" where
  "np_mean xs = sum_list xs / real (length xs)"

definition np_std :: "real list \<Rightarrow> real" where
  "np_std xs = sqrt (np_mean (map (\<lambda>x. (x - np_mean xs)\<^sup>2) xs))"

text \<open>
  The comprehension
  \<^verbatim>\<open>[comp['price'] / comp['square_feet'] for comp in comps if comp.get('square_feet', 0) > 0]\<close>;
  an exception of a division ends it.
\<close>

fun comp_psf :: "Comp list \<Rightarrow> error + real list" where
  "comp_psf [] = Inr []"
| "comp_psf (c # cs) =
     (if c_square_feet c > 0
      then (case truediv (c_price c) (c_square_feet c) of
              Inl e \<Rightarrow> Inl e
            | Inr v \<Rightarrow> (case comp_psf cs of Inl e \<Rightarrow> Inl e | Inr vs \<Rightarrow> Inr (v # vs)))
      else comp_psf cs)"

text \<open>\<^verbatim>\<open>deal_analyzer.calculate_arv\<close>: the outlier filter is always applied.\<close>

definition calculate_arv :: "Property \<Rightarrow> error + real" where
  "calculate_arv p =
     (if comps p = [] then Inr (list_price p * (15 / 10))
      else case comp_psf (comps p) of
             Inl e \<Rightarrow> Inl e
           | Inr psf \<Rightarrow>
               if psf = [] then Inr (list_price p * (15 / 10))
               else (let mean_psf = np_mean psf;
                         std_psf = np_std psf;
                         filtered_psf = filter (\<lambda>x. \<bar>x - mean_psf\<bar> \<le> 2 * std_psf) psf;
                         avg_psf = (if filtered_psf \<noteq> [] then np_mean filtered_psf else mean_psf)
                     in Inr (square_feet p * avg_psf)))"

text \<open>The parameters of \<^verbatim>\<open>FlipFinderDashboard\<close> (\<^verbatim>\<open>app.py\<close>) that the comp filter and
  the ARV estimator read.\<close>

record dashboard =
  use_comps_within_miles :: real
  max_comp_age_months :: int
  min_comp_sqft_pct :: real
  max_comp_sqft_pct :: real
  exclude_outliers :: bool

text \<open>\<^verbatim>\<open>FlipFinderDashboard.calculate_arv\<close>: the filter depends on the flag and on the
  number of samples.\<close>

definition dashboard_calculate_arv :: "dashboard \<Rightarrow> Property \<Rightarrow> error + real" where
  "dashboard_calculate_arv D p =
     (if comps p = [] then Inr (list_price p * (15 / 10))
      else case comp_psf (comps p) of
             Inl e \<Rightarrow> Inl e
           | Inr psf \<Rightarrow>
               if psf = [] then Inr (list_price p * (15 / 10))
               else (let avg_psf =
                           (if exclude_outliers D \<and> length psf > 5
                            then (let mean_psf = np_mean psf;
                                      std_psf = np_std psf;
                                      filtered_psf = filter (\<lambda>x. \<bar>x - mean_psf\<bar> \<le> 2 * std_psf) psf
                                  in if filtered_psf \<noteq> [] then np_mean filtered_psf else mean_psf)
                            else np_mean psf)
                     in Inr (square_feet p * avg_psf)))"

section \<open>Comp filter\<close>

text \<open>
  A calendar date as \<^verbatim>\<open>datetime\<close> holds it, and its rendering by
  \<^verbatim>\<open>strftime('%Y-%m-%d')\<close>: four digits of the year, two of the month, two of the
  day (for the years 1000 to 9999).
\<close>

record date =
  date_year :: nat
  date_month :: nat
  date_day :: nat

definition digit_char :: "nat \<Rightarrow> char" where
  "digit_char n = char_of (48 + n)"

definition pad2 :: "nat \<Rightarrow> string" where
  "pad2 n = [digit_char (n div 10), digit_char (n mod 10)]"

definition pad4 :: "nat \<Rightarrow> string" where
  "pad4 n = pad2 (n div 100) @ pad2 (n mod 100)"

definition strftime :: "date \<Rightarrow> string" where
  "strftime d = pad4 (date_year d) @ ''-'' @ pad2 (date_month d) @ ''-'' @ pad2 (date_day d)"

text \<open>The order of \<^verbatim>\<open>datetime.date\<close>: year, then month, then day.\<close>

definition date_le :: "date \<Rightarrow> date \<Rightarrow> bool" where
  "date_le a b \<longleftrightarrow>
     date_year a < date_year b
     \<or> (date_year a = date_year b
        \<and> (date_month a < date_month b
           \<or> (date_month a = date_month b \<and> date_day a \<le> date_day b)))"

definition valid_date :: "date \<Rightarrow> bool" where
  "valid_date d \<longleftrightarrow>
     1000 \<le> date_year d \<and> date_year d \<le> 9999
     \<and> 1 \<le> date_month d \<and> date_month d \<le> 12
     \<and> 1 \<le> date_day d \<and> date_day d \<le> 31"

text \<open>
  The loop of \<^verbatim>\<open>FlipFinderDashboard.filter_comps\<close>: each comp that passes the four
  tests is appended to the result. The sale date and the cutoff are compared as
  strings.
\<close>

fun filter_loop :: "real \<Rightarrow> real \<Rightarrow> real \<Rightarrow> string \<Rightarrow> Comp list \<Rightarrow> Comp list \<Rightarrow> Comp list" where
  "filter_loop min_sqft max_sqft max_distance cutoff_date [] filtered_comps = filtered_comps"
| "filter_loop min_sqft max_sqft max_distance cutoff_date (c # rest) filtered_comps =
     (if c_square_feet c \<ge> min_sqft \<and> c_square_feet c \<le> max_sqft
         \<and> c_distance c \<le> max_distance \<and> c_sale_date c \<ge> cutoff_date
      then filter_loop min_sqft max_sqft max_distance cutoff_date rest (filtered_comps @ [c])
      else filter_loop min_sqft max_sqft max_distance cutoff_date rest filtered_comps)"

text \<open>
  \<^verbatim>\<open>filter_comps\<close>. The clock is an argument: \<open>now_minus n\<close> is the calendar date of
  \<^verbatim>\<open>datetime.now() - timedelta(days=n)\<close>, which the \<^verbatim>\<open>datetime\<close> library computes.
\<close>

definition filter_comps :: "dashboard \<Rightarrow> (int \<Rightarrow> date) \<Rightarrow> Property \<Rightarrow> Comp list" where
  "filter_comps D now_minus p =
     (if comps p = [] then []
      else (let min_sqft = square_feet p * min_comp_sqft_pct D;
                max_sqft = square_feet p * max_comp_sqft_pct D;
                max_distance = use_comps_within_miles D;
                cutoff_date = strftime (now_minus (max_comp_age_months D * 30))
            in filter_loop min_sqft max_sqft max_distance cutoff_date (comps p) []))"

section \<open>Scorer\<close>

text \<open>Python's \<^verbatim>\<open>max\<close> and \<^verbatim>\<open>min\<close> of a list, which \<^verbatim>\<open>score_deals\<close> only calls on a
  non-empty one (\<^verbatim>\<open>max(vs) if vs else 0\<close>).\<close>

definition py_max :: "real list \<Rightarrow> real" where
  "py_max vs = (case vs of [] \<Rightarrow> 0 | v # rest \<Rightarrow> fold max rest v)"

definition py_min :: "real list \<Rightarrow> real" where
  "py_min vs = (case vs of [] \<Rightarrow> 0 | v # rest \<Rightarrow> fold min rest v)"

definition deal_dom :: "Deal \<Rightarrow> real" where
  "deal_dom deal = real_of_int (pd_days_on_market (property_data deal))"

text \<open>
  The body of the loop of \<^verbatim>\<open>score_deals\<close>: the score of one deal, given the
  minima and the ranges of the batch. Each division is Python's, which raises
  on a zero divisor, behind the test the source puts before it;
  \<^verbatim>\<open>w * (v - lo) / range\<close> divides the product.
\<close>

definition deal_score ::
  "settings \<Rightarrow> real \<Rightarrow> real \<Rightarrow> real \<Rightarrow> real \<Rightarrow> real \<Rightarrow> real \<Rightarrow> real \<Rightarrow> real \<Rightarrow> Deal
     \<Rightarrow> error + real" where
  "deal_score S min_profit profit_range min_roi roi_range min_repair repair_range
       min_dom dom_range deal =
     and_then
       (if profit_range > 0
        then and_then (truediv (profit_weight S * (potential_profit deal - min_profit)) profit_range)
               (\<lambda>profit_score. Inr (0 + profit_score))
        else Inr 0)
     (\<lambda>s. and_then
       (if roi_range > 0
        then and_then (truediv (roi_weight S * (roi deal - min_roi)) roi_range)
               (\<lambda>roi_score. Inr (s + roi_score))
        else Inr s)
     (\<lambda>s. and_then
       (if repair_range > 0
        then and_then (truediv (repair_costs deal - min_repair) repair_range)
               (\<lambda>q. Inr (s + repair_cost_weight S * (1 - q)))
        else Inr s)
     (\<lambda>s. and_then
       (if dom_range > 0
        then and_then (truediv (dom_weight S * (deal_dom deal - min_dom)) dom_range)
               (\<lambda>dom_score. Inr (s + dom_score))
        else Inr s)
     (\<lambda>s.
       (let kws = pd_opportunity_keywords (property_data deal);
            s = (if kws \<noteq> []
                 then s + min (opportunity_keywords_weight S) (real (length kws))
                 else s);
            s = (if meets_70_percent_rule deal then s + meets_70_rule_weight S else s)
        in Inr s)))))"

text \<open>The loop \<^verbatim>\<open>for deal in deals\<close>: each deal gets its score and is appended; an
  exception while scoring a deal ends the loop.\<close>

fun score_loop :: "(Deal \<Rightarrow> error + real) \<Rightarrow> Deal list \<Rightarrow> Deal list \<Rightarrow> error + Deal list" where
  "score_loop f [] scored_deals = Inr scored_deals"
| "score_loop f (deal # rest) scored_deals =
     (case f deal of
        Inl e \<Rightarrow> Inl e
      | Inr s \<Rightarrow> score_loop f rest (scored_deals @ [deal\<lparr>score := s\<rparr>]))"

text \<open>
  \<^verbatim>\<open>score_deals\<close>. \<^verbatim>\<open>list.sort(key=..., reverse=True)\<close> is a stable sort in
  descending order of the key (equal keys keep their order), which is the
  stable ascending sort on the negated key.
\<close>

definition score_deals :: "settings \<Rightarrow> Deal list \<Rightarrow> error + Deal list" where
  "score_deals S deals =
     (if deals = [] then Inr []
      else (let profit_values = map potential_profit deals;
                roi_values = map roi deals;
                repair_values = map repair_costs deals;
                dom_values = map deal_dom deals;
                max_profit = (if profit_values \<noteq> [] then py_max profit_values else 0);
                min_profit = (if profit_values \<noteq> [] then py_min profit_values else 0);
                max_roi = (if roi_values \<noteq> [] then py_max roi_values else 0);
                min_roi = (if roi_values \<noteq> [] then py_min roi_values else 0);
                max_repair = (if repair_values \<noteq> [] then py_max repair_values else 0);
                min_repair = (if repair_values \<noteq> [] then py_min repair_values else 0);
                max_dom = (if dom_values \<noteq> [] then py_max dom_values else 0);
                min_dom = (if dom_values \<noteq> [] then py_min dom_values else 0);
                profit_range = max_profit - min_profit;
                roi_range = max_roi - min_roi;
                repair_range = max_repair - min_repair;
                dom_range = max_dom - min_dom
            in and_then
                 (score_loop
                    (deal_score S min_profit profit_range min_roi roi_range
                       min_repair repair_range min_dom dom_range) deals [])
                 (\<lambda>scored_deals. Inr (sort_key (\<lambda>x. - score x) scored_deals))))"

text \<open>The scorer as the specification words it: min-max normalisation of a metric
  over the batch, zero when the maximum equals the minimum.\<close>

definition normalized :: "real \<Rightarrow> real \<Rightarrow> real list \<Rightarrow> real" where
  "normalized w v vs =
     (if Max (set vs) = Min (set vs) then 0
      else w * (v - Min (set vs)) / (Max (set vs) - Min (set vs)))"

definition normalized_inverted :: "real \<Rightarrow> real \<Rightarrow> real list \<Rightarrow> real" where
  "normalized_inverted w v vs =
     (if Max (set vs) = Min (set vs) then 0
      else w * (1 - (v - Min (set vs)) / (Max (set vs) - Min (set vs))))"

definition bonus :: "settings \<Rightarrow> Deal \<Rightarrow> real" where
  "bonus S deal =
     min (opportunity_keywords_weight S) (real (length (pd_opportunity_keywords (property_data deal))))
     + (if meets_70_percent_rule deal then meets_70_rule_weight S else 0)"

definition spec_score :: "settings \<Rightarrow> Deal list \<Rightarrow> Deal \<Rightarrow> real" where
  "spec_score S deals deal =
     normalized (profit_weight S) (potential_profit deal) (map potential_profit deals)
     + normalized (roi_weight S) (roi deal) (map roi deals)
     + normalized_inverted (repair_cost_weight S) (repair_costs deal) (map repair_costs deals)
     + normalized (dom_weight S) (deal_dom deal) (map deal_dom deals)
     + bonus S deal"

section \<open>Renovation-level classifier\<close>

datatype renovation_level = Cosmetic | Moderate | Extensive | Complete

text \<open>Python's \<^verbatim>\<open>str.lower\<close> on the ASCII letters, \<^verbatim>\<open>s.startswith(k)\<close>, and the
  substring test \<^verbatim>\<open>k in s\<close>.\<close>

definition lower_char :: "char \<Rightarrow> char" where
  "lower_char c = (if CHR ''A'' \<le> c \<and> c \<le> CHR ''Z'' then char_of (of_char c + (32::nat)) else c)"

definition lower :: "string \<Rightarrow> string" where
  "lower s = map lower_char s"

fun startswith :: "string \<Rightarrow> string \<Rightarrow> bool" where
  "startswith s [] = True"
| "startswith [] (k # ks) = False"
| "startswith (c # s) (k # ks) = (c = k \<and> startswith s ks)"

fun py_in :: "string \<Rightarrow> string \<Rightarrow> bool" where
  "py_in k [] = (k = [])"
| "py_in k (c # s) = (startswith (c # s) k \<or> py_in k s)"

definition base_level :: "int option \<Rightarrow> renovation_level" where
  "base_level a =
     (case a of None \<Rightarrow> Moderate
      | Some n \<Rightarrow> if n > 50 then Extensive
                  else if n > 30 then Moderate
                  else if n > 15 then Cosmetic
                  else Cosmetic)"

definition extensive_indicators :: "string list" where
  "extensive_indicators =
     [''fixer'', ''needs work'', ''tlc'', ''handyman special'', ''distressed'',
      ''as-is'', ''potential'', ''opportunity'', ''needs renovation'']"

definition moderate_indicators :: "string list" where
  "moderate_indicators = [''dated'', ''original'', ''some updating'', ''could use'', ''older'']"

text \<open>\<^verbatim>\<open>any(k in description for k in ks)\<close>.\<close>

definition any_in :: "string list \<Rightarrow> string \<Rightarrow> bool" where
  "any_in ks d = list_ex (\<lambda>k. py_in k d) ks"

text \<open>\<^verbatim>\<open>sum([...])\<close> over the five flags: a true flag counts one.\<close>

definition serious_issues :: "string \<Rightarrow> nat" where
  "serious_issues d =
     (let has_roof_issues = any_in [''roof'', ''leak''] d;
          has_hvac_issues = any_in [''hvac'', ''heat'', ''cooling''] d;
          has_foundation_issues = any_in [''foundation'', ''structural''] d;
          has_electrical_issues = any_in [''electrical'', ''wiring''] d;
          has_plumbing_issues = any_in [''plumbing'', ''pipes''] d
      in sum_list (map (\<lambda>b. if b then 1 else 0)
           [has_roof_issues, has_hvac_issues, has_foundation_issues,
            has_electrical_issues, has_plumbing_issues]))"

text \<open>\<^verbatim>\<open>sum(1 for k in indicators if any(k in kw for kw in keywords) or k in description)\<close>.\<close>

definition indicator_count :: "string list \<Rightarrow> string list \<Rightarrow> string \<Rightarrow> nat" where
  "indicator_count indicators keywords d =
     length (filter (\<lambda>k. list_ex (\<lambda>kw. py_in k kw) keywords \<or> py_in k d) indicators)"

definition decide :: "nat \<Rightarrow> nat \<Rightarrow> nat \<Rightarrow> renovation_level \<Rightarrow> renovation_level" where
  "decide extensive_count moderate_count issues base =
     (if extensive_count \<ge> 2 \<or> issues \<ge> 2 then Extensive
      else if extensive_count \<ge> 1 \<or> moderate_count \<ge> 2 \<or> issues \<ge> 1 then Moderate
      else if moderate_count \<ge> 1 then (if base = Cosmetic then Moderate else base)
      else base)"

definition estimate_renovation_level :: "Property \<Rightarrow> renovation_level" where
  "estimate_renovation_level p =
     (let base = base_level (age p);
          d = lower (description p);
          keywords = opportunity_keywords p;
          issues = serious_issues d;
          extensive_count = indicator_count extensive_indicators keywords d;
          moderate_count = indicator_count moderate_indicators keywords d
      in decide extensive_count moderate_count issues base)"

section \<open>Reference values\<close>

text \<open>The total project cost of a deal as the specification words it: list price,
  repair cost, closing costs of both sides, holding costs over the holding
  period.\<close>

definition project_cost :: "settings \<Rightarrow> Property \<Rightarrow> real \<Rightarrow> real \<Rightarrow> real" where
  "project_cost S p a rc =
     list_price p + rc
     + (list_price p * purchase_percentage S
        + a * agent_commission S + a * seller_closing_percentage S)
     + (list_price p * mortgage_rate S / 12 + list_price p * property_tax_rate S / 12
        + list_price p * insurance_rate S / 12 + monthly_utilities S) * AVERAGE_FLIP_MONTHS S"

text \<open>A listing used to run the functions on concrete input: 1000 square feet, two
  bathrooms, sixty years old, listed at 200000, no comps and no keywords.\<close>

definition example_property :: Property where
  "example_property = \<lparr>
     mls_id = ''MD1001'', address = ''12 Elm St'', city = ''Gaithersburg'', state = ''MD'',
     zip_code = ''20878'', list_price = 200000, bedrooms = 3, bathrooms = 2,
     square_feet = 1000, lot_size = None, year_built = 1966, days_on_market = 30,
     description = ''Brick rambler, Foundation crack and electrical panel to replace'',
     latitude = 0, longitude = 0, photos = [], opportunity_keywords = [], comps = [],
     tax_data = [], neighborhood_data = [],
     estimated_repair_cost = 0, estimated_arv = 0, estimated_profit = 0, estimated_roi = 7,
     price_per_sqft = 200, age = Some 60 \<rparr>"

definition zero_cost_property :: Property where
  "zero_cost_property = example_property\<lparr>list_price := 0\<rparr>"

text \<open>The coarse estimate as the specification words it: the kitchen cost is added
  once when \<open>sqft / 1500 \<ge> 1\<close> and not at all otherwise.\<close>

definition spec_condition_factor :: "string list \<Rightarrow> real" where
  "spec_condition_factor kws =
     (if \<exists>k \<in> set high_repair_keywords. k \<in> set kws then 15 / 10
      else if \<exists>k \<in> set moderate_repair_keywords. k \<in> set kws then 125 / 100
      else 1)"

definition older_than_20 :: "Property \<Rightarrow> bool" where
  "older_than_20 p = (case age p of None \<Rightarrow> False | Some n \<Rightarrow> n > 20)"

definition spec_estimate_repairs :: "settings \<Rightarrow> Property \<Rightarrow> real" where
  "spec_estimate_repairs S p =
     (square_feet p * base_sqft_cost S * age_factor (age p)
        * spec_condition_factor (opportunity_keywords p)
      + (if older_than_20 p
         then (if square_feet p / 1500 \<ge> 1 then kitchen S else 0)
              + bathroom S * min (bathrooms p) 2
         else 0))
     * (11 / 10)"

text \<open>The price-per-square-foot samples as the specification words them, and the
  average the ARV estimator retains: outlier rejection at two population
  standard deviations around the mean, only with the flag and more than five
  samples, and the unfiltered mean when nothing is retained.\<close>

definition samples :: "Comp list \<Rightarrow> real list" where
  "samples cs = map (\<lambda>c. c_price c / c_square_feet c) (filter (\<lambda>c. c_square_feet c > 0) cs)"




text \<open>Comps and deals used to run the functions on concrete input.\<close>

definition example_comp :: Comp where
  "example_comp = \<lparr>
     c_address = ''Comp 1 near 12 Elm St'', c_sale_date = ''2026-06-15'', c_price = 200000,
     c_square_feet = 1000, c_price_per_sqft = 200, c_bedrooms = 3, c_bathrooms = 2,
     c_year_built = 1966, c_distance = 1 / 2 \<rparr>"

definition example_dashboard :: dashboard where
  "example_dashboard = \<lparr>
     use_comps_within_miles = 1, max_comp_age_months = 6, min_comp_sqft_pct = 8 / 10,
     max_comp_sqft_pct = 12 / 10, exclude_outliers = True \<rparr>"

definition example_deal :: Deal where
  "example_deal = \<lparr>
     property_id = ''MD1001'', deal_address = ''12 Elm St, Gaithersburg, MD 20878'',
     deal_list_price = 200000, arv = 320000, repair_costs = 30000, closing_costs = 31600,
     holding_costs = 6800, total_project_cost = 268400, potential_profit = 51600,
     roi = 51600 / 268400 * 100, meets_criteria = False, meets_70_percent_rule = False,
     max_purchase_price = 194000, property_data = to_dict example_property, score = 0 \<rparr>"

definition example_comps :: "Comp list" where
  "example_comps =
     [example_comp, example_comp\<lparr>c_distance := 2\<rparr>, example_comp\<lparr>c_sale_date := ''2025-02-03''\<rparr>]"

definition example_cutoff :: date where
  "example_cutoff = \<lparr> date_year = 2026, date_month = 5, date_day = 8 \<rparr>"

definition example_sale :: "Comp \<Rightarrow> date" where
  "example_sale c =
     (if c_sale_date c = ''2026-06-15''
      then \<lparr> date_year = 2026, date_month = 6, date_day = 15 \<rparr>
      else \<lparr> date_year = 2025, date_month = 2, date_day = 3 \<rparr>)"


definition example_deal_bonus :: Deal where
  "example_deal_bonus = example_deal\<lparr>
     property_id := ''MD1002'', meets_70_percent_rule := True,
     property_data := (to_dict example_property)\<lparr>pd_opportunity_keywords := [''fixer'', ''tlc'']\<rparr>\<rparr>"

section \<open>Properties of the deal evaluator\<close>

lemma project_cost_eq:
  "list_price p + rc + cc_total (calculate_closing_costs S (list_price p) a)
     + calculate_holding_costs S (list_price p) (AVERAGE_FLIP_MONTHS S) = project_cost S p a rc"
  by (simp add: project_cost_def calculate_closing_costs_def calculate_holding_costs_def Let_def)

text \<open>The two ways out of \<^verbatim>\<open>analyze_deal\<close>: the exception at the division, after
  three writes to the property, or the deal, after four.\<close>

lemma analyze_deal_cases:
  "analyze_deal S p a rc mr =
     (if project_cost S p a rc = 0
      then (p\<lparr>estimated_repair_cost := rc, estimated_arv := a,
              estimated_profit := a - project_cost S p a rc\<rparr>, Inl ZeroDivisionError)
      else (p\<lparr>estimated_repair_cost := rc, estimated_arv := a,
              estimated_profit := a - project_cost S p a rc,
              estimated_roi := (a - project_cost S p a rc) / project_cost S p a rc * 100\<rparr>,
            Inr \<lparr>
              property_id = mls_id p,
              deal_address = get_full_address p,
              deal_list_price = list_price p,
              arv = a,
              repair_costs = rc,
              closing_costs = cc_total (calculate_closing_costs S (list_price p) a),
              holding_costs = calculate_holding_costs S (list_price p) (AVERAGE_FLIP_MONTHS S),
              total_project_cost = project_cost S p a rc,
              potential_profit = a - project_cost S p a rc,
              roi = (a - project_cost S p a rc) / project_cost S p a rc * 100,
              meets_criteria = ((a - project_cost S p a rc) / project_cost S p a rc * 100 \<ge> mr),
              meets_70_percent_rule = (list_price p \<le> (7 / 10) * a - rc),
              max_purchase_price = (7 / 10) * a - rc,
              property_data =
                to_dict (p\<lparr>estimated_repair_cost := rc, estimated_arv := a,
                  estimated_profit := a - project_cost S p a rc,
                  estimated_roi := (a - project_cost S p a rc) / project_cost S p a rc * 100\<rparr>),
              score = 0 \<rparr>))"
  unfolding analyze_deal_def Let_def truediv_def
  by (simp add: project_cost_eq get_full_address_def del: times_divide_eq_left times_divide_eq_right)

lemma example_project_cost:
  "project_cost default_settings example_property 320000 30000 = 268400"
  by (simp add: project_cost_def default_settings_def example_property_def)

text \<open>
  C1. Every deal that \<^verbatim>\<open>analyze_deal\<close> returns satisfies the accounting identities:
  its total project cost is its list price plus its repair costs plus its
  closing costs plus its holding costs, its potential profit is its ARV minus the
  total project cost, and its ROI is the profit over the total cost times 100.
  The fields are those of the call: the list price of the property, the repair
  costs and the ARV given.
\<close>

theorem analyze_deal_identities:
  "analyze_deal S p a rc mr = (p', Inr d) \<Longrightarrow>
     total_project_cost d = deal_list_price d + repair_costs d + closing_costs d + holding_costs d
     \<and> potential_profit d = arv d - total_project_cost d
     \<and> roi d = potential_profit d / total_project_cost d * 100
     \<and> total_project_cost d \<noteq> 0
     \<and> deal_list_price d = list_price p \<and> repair_costs d = rc \<and> arv d = a
     \<and> total_project_cost d = project_cost S p a rc"
  by (auto simp add: analyze_deal_cases project_cost_eq [symmetric] split: if_splits)

theorem analyze_deal_identities_witness:
  "\<exists>p' d. analyze_deal default_settings example_property 320000 30000 20 = (p', Inr d)
     \<and> total_project_cost d = deal_list_price d + repair_costs d + closing_costs d + holding_costs d
     \<and> total_project_cost d = 268400 \<and> potential_profit d = 51600"
proof -
  obtain p' d where eq: "analyze_deal default_settings example_property 320000 30000 20 = (p', Inr d)"
    by (simp add: analyze_deal_cases example_project_cost)
  from analyze_deal_identities [OF eq] have
    "total_project_cost d = deal_list_price d + repair_costs d + closing_costs d + holding_costs d"
    "potential_profit d = arv d - total_project_cost d" "arv d = 320000"
    "total_project_cost d = 268400"
    by (simp_all add: example_project_cost)
  with eq show ?thesis by simp
qed

section \<open>Properties of the coarse repair estimator\<close>

lemma keyword_loop_eq:
  "keyword_loop ks kws cf v = (if \<exists>k \<in> set ks. k \<in> set kws then v else cf)"
  by (induction ks) auto

lemma condition_factor_spec: "condition_factor kws = spec_condition_factor kws"
  by (simp add: condition_factor_def spec_condition_factor_def keyword_loop_eq Let_def)

lemma condition_factor_Nil: "condition_factor [] = 1"
  by (simp add: condition_factor_spec spec_condition_factor_def)

text \<open>The kitchen multiplier \<^verbatim>\<open>min(1, int(sqft / 1500))\<close> is the step function: 1
  from 1500 square feet on, 0 below (\<^verbatim>\<open>int\<close> truncates towards zero, so the
  multiplier is 0 down to \<open>-1500\<close> exclusive).\<close>

lemma kitchen_step:
  assumes "- 1500 < x"
  shows "min 1 (py_int (x / 1500)) = (if x / 1500 \<ge> 1 then 1 else 0)"
proof (cases "0 \<le> x")
  case True
  show ?thesis
  proof (cases "1500 \<le> x")
    case True
    then have "1 \<le> \<lfloor>x / 1500\<rfloor>" by (simp add: le_floor_iff)
    with True \<open>0 \<le> x\<close> show ?thesis by (simp add: py_int_def)
  next
    case False
    with \<open>0 \<le> x\<close> have "\<lfloor>x / 1500\<rfloor> = 0" by (simp add: floor_eq_iff)
    with False \<open>0 \<le> x\<close> show ?thesis by (simp add: py_int_def)
  qed
next
  case False
  with assms have "\<lceil>x / 1500\<rceil> = 0" by (simp add: ceiling_eq_iff)
  with False show ?thesis by (simp add: py_int_def)
qed

text \<open>
  C4. For every property of non-negative square footage, the coarse estimate
  is \<open>sqft \<times> base cost \<times> age factor \<times> condition factor\<close>, plus, when the age is
  known and above 20, the kitchen cost once when \<open>sqft / 1500 \<ge> 1\<close> and zero
  otherwise and the bathroom cost times \<open>min(bathrooms, 2)\<close>, all times 1.1. The
  age factor is 1.5 above 50, 1.3 above 30, 1.1 above 15, and 1.0 otherwise or
  when the age is unknown; the condition factor is 1.5 when a high-repair
  keyword is among the opportunity keywords, else 1.25 when a moderate one is,
  else 1.0.
\<close>

theorem estimate_repairs_spec:
  "0 \<le> square_feet p \<Longrightarrow>
     estimate_repairs S p = spec_estimate_repairs S p
     \<and> age_factor None = 1
     \<and> age_factor (Some n) =
         (if n > 50 then 15 / 10 else if n > 30 then 13 / 10 else if n > 15 then 11 / 10 else 1)
     \<and> condition_factor kws = spec_condition_factor kws"
  by (simp add: estimate_repairs_def spec_estimate_repairs_def older_than_20_def Let_def
      condition_factor_spec kitchen_step age_factor_def split: option.splits)

theorem estimate_repairs_spec_witness:
  "0 \<le> square_feet (example_property\<lparr>square_feet := 1500\<rparr>)
   \<and> estimate_repairs default_settings (example_property\<lparr>square_feet := 1500\<rparr>)
       = spec_estimate_repairs default_settings (example_property\<lparr>square_feet := 1500\<rparr>)
   \<and> spec_estimate_repairs default_settings (example_property\<lparr>square_feet := 1500\<rparr>) = 82500"
  using estimate_repairs_spec [of "example_property\<lparr>square_feet := 1500\<rparr>" default_settings]
  by (simp add: example_property_def spec_estimate_repairs_def default_settings_def
      older_than_20_def age_factor_def spec_condition_factor_def)

text \<open>
  C5, as stated, fails: at age 60, 1000 square feet, base cost 20, two bathrooms
  and no keywords the code returns 49500, the claim's sum with the kitchen cost
  added once is 66000.
\<close>

theorem estimate_repairs_small_home_no_kitchen:
  "estimate_repairs default_settings example_property = 49500
   \<and> (30000 + kitchen default_settings
        + bathroom default_settings * min (bathrooms example_property) 2) * (11 / 10) = 66000"
  by (simp add: estimate_repairs_def example_property_def default_settings_def
      age_factor_def condition_factor_Nil py_int_def Let_def)

text \<open>
  C5, amended. For a property of age 60 and 1000 square feet, with base cost 20
  per square foot and no high or moderate repair keyword, the age factor is 1.5,
  the condition factor 1.0 and the base 30000; since \<open>sqft / 1500 < 1\<close> the kitchen
  multiplier is 0 and no kitchen cost is added; the estimate is the base plus
  the bathroom cost times \<open>min(bathrooms, 2)\<close>, times 1.1.
\<close>

theorem estimate_repairs_age60_sqft1000:
  assumes "age p = Some 60" and "square_feet p = 1000" and "base_sqft_cost S = 20"
    and "\<forall>k \<in> set high_repair_keywords \<union> set moderate_repair_keywords.
           k \<notin> set (opportunity_keywords p)"
  shows "age_factor (age p) = 15 / 10
    \<and> condition_factor (opportunity_keywords p) = 1
    \<and> square_feet p * base_sqft_cost S * age_factor (age p)
        * condition_factor (opportunity_keywords p) = 30000
    \<and> min 1 (py_int (square_feet p / 1500)) = 0
    \<and> estimate_repairs S p = (30000 + bathroom S * min (bathrooms p) 2) * (11 / 10)"
proof -
  have af: "age_factor (age p) = 15 / 10"
    using assms(1) by (simp add: age_factor_def)
  have cf: "condition_factor (opportunity_keywords p) = 1"
    using assms(4) by (auto simp add: condition_factor_spec spec_condition_factor_def)
  have k: "py_int (square_feet p / 1500) = 0"
    using assms(2) by (simp add: py_int_def floor_eq_iff)
  show ?thesis
    using af cf k assms(1,2,3) by (simp add: estimate_repairs_def Let_def)
qed

theorem estimate_repairs_age60_sqft1000_witness:
  "age example_property = Some 60 \<and> square_feet example_property = 1000
   \<and> estimate_repairs default_settings example_property
       = (30000 + 7500 * min (bathrooms example_property) 2) * (11 / 10)"
proof -
  have a: "age example_property = Some 60" and b: "square_feet example_property = 1000"
    and c: "base_sqft_cost default_settings = 20"
    and d: "\<forall>k \<in> set high_repair_keywords \<union> set moderate_repair_keywords.
              k \<notin> set (opportunity_keywords example_property)"
    by (simp_all add: example_property_def default_settings_def)
  from estimate_repairs_age60_sqft1000 [OF a b c d] a b show ?thesis
    by (simp add: default_settings_def)
qed

section \<open>The division of the ROI and the writes to the property\<close>

lemma zero_cost: "project_cost default_settings zero_cost_property 0 (- 800) = 0"
  by (simp add: project_cost_def default_settings_def zero_cost_property_def example_property_def)

lemma zero_cost2: "project_cost default_settings zero_cost_property (- 10000) 0 = 0"
  by (simp add: project_cost_def default_settings_def zero_cost_property_def example_property_def)

text \<open>
  C2, as stated, fails: \<^verbatim>\<open>analyze_deal\<close> has no guard at the division. With list
  price 0, ARV 0 and repair costs \<open>-800\<close> under the default settings the total
  project cost is \<open>0 - 800 + 0 + 800 = 0\<close>, and the call raises
  \<^verbatim>\<open>ZeroDivisionError\<close>.
\<close>

theorem analyze_deal_zero_cost_raises:
  "snd (analyze_deal default_settings zero_cost_property 0 (- 800) 20) = Inl ZeroDivisionError"
  by (simp add: analyze_deal_cases zero_cost)

text \<open>
  C2, amended. \<^verbatim>\<open>analyze_deal\<close> does not guard the division computing the ROI: it
  raises \<^verbatim>\<open>ZeroDivisionError\<close> exactly when the total project cost is 0, and no
  configuration error is reported.
\<close>

theorem analyze_deal_raises_iff:
  "snd (analyze_deal S p a rc mr) = Inl ZeroDivisionError \<longleftrightarrow> project_cost S p a rc = 0"
  by (simp add: analyze_deal_cases)

theorem analyze_deal_raises_iff_witness:
  "project_cost default_settings zero_cost_property (- 10000) 0 = 0
   \<and> snd (analyze_deal default_settings zero_cost_property (- 10000) 0 20) = Inl ZeroDivisionError"
  using analyze_deal_raises_iff [of default_settings zero_cost_property "- 10000" 0 20]
  by (simp add: zero_cost2)

text \<open>
  C10, as stated, fails on the same input of Python floats: the call raises
  after three writes, and \<open>estimated_roi\<close> keeps the value it had (7 in the
  example), not a computed ROI.
\<close>

theorem analyze_deal_zero_cost_roi_unset:
  "analyze_deal default_settings zero_cost_property 0 (- 800) 20
     = (zero_cost_property\<lparr>estimated_repair_cost := - 800, estimated_arv := 0, estimated_profit := 0\<rparr>,
        Inl ZeroDivisionError)
   \<and> estimated_roi (fst (analyze_deal default_settings zero_cost_property 0 (- 800) 20)) = 7"
proof -
  have "estimated_roi zero_cost_property = 7"
    by (simp add: zero_cost_property_def example_property_def)
  then show ?thesis by (simp add: analyze_deal_cases zero_cost)
qed

text \<open>
  C10, amended. On inputs of Python's \<^verbatim>\<open>float\<close>, the type the signature declares:
  a call of \<^verbatim>\<open>analyze_deal\<close> that returns a deal (the total project cost is not 0)
  has written exactly four fields of the property: \<open>estimated_repair_cost\<close> (the
  repair costs given), \<open>estimated_arv\<close> (the ARV given), \<open>estimated_profit\<close> (the
  deal's potential profit) and \<open>estimated_roi\<close> (the deal's ROI). A call that
  raises (the total project cost is 0) has written the first three only. In
  both cases every other field of the property is unchanged. (With a
  \<^verbatim>\<open>numpy.float64\<close> ARV the division does not raise, every call returns a deal
  and writes the four fields; the statement's first case covers it but for
  the \<^verbatim>\<open>nan\<close> or \<^verbatim>\<open>inf\<close> that is then the ROI.)
\<close>

theorem analyze_deal_frame:
  "analyze_deal S p a rc mr = (p', r) \<Longrightarrow>
     (case r of
        Inr d \<Rightarrow>
          p' = p\<lparr>estimated_repair_cost := rc, estimated_arv := a,
                 estimated_profit := potential_profit d, estimated_roi := roi d\<rparr>
          \<and> potential_profit d = a - project_cost S p a rc
          \<and> roi d = (a - project_cost S p a rc) / project_cost S p a rc * 100
          \<and> project_cost S p a rc \<noteq> 0
      | Inl e \<Rightarrow>
          p' = p\<lparr>estimated_repair_cost := rc, estimated_arv := a,
                 estimated_profit := a - project_cost S p a rc\<rparr>
          \<and> project_cost S p a rc = 0)
     \<and> list_price p' = list_price p \<and> square_feet p' = square_feet p
     \<and> comps p' = comps p \<and> opportunity_keywords p' = opportunity_keywords p
     \<and> description p' = description p \<and> latitude p' = latitude p
     \<and> longitude p' = longitude p"
  by (auto simp add: analyze_deal_cases split: if_splits)

theorem analyze_deal_frame_witness:
  "\<exists>d. analyze_deal default_settings example_property 320000 30000 20
     = (example_property\<lparr>estimated_repair_cost := 30000, estimated_arv := 320000,
          estimated_profit := 51600, estimated_roi := roi d\<rparr>, Inr d)
     \<and> potential_profit d = 51600"
proof -
  obtain p' d where eq: "analyze_deal default_settings example_property 320000 30000 20 = (p', Inr d)"
    by (simp add: analyze_deal_cases example_project_cost)
  from analyze_deal_frame [OF eq] have
    "p' = example_property\<lparr>estimated_repair_cost := 30000, estimated_arv := 320000,
           estimated_profit := potential_profit d, estimated_roi := roi d\<rparr>"
    "potential_profit d = 51600"
    by (simp_all add: example_project_cost)
  with eq show ?thesis by auto
qed

section \<open>Properties of the ARV estimator\<close>

lemma comp_psf_eq: "comp_psf cs = Inr (samples cs)"
  by (induction cs) (auto simp add: truediv_def samples_def)


text \<open>
  C9. For every property whose comp list is empty, or whose comps all have
  square footage at most 0, \<^verbatim>\<open>calculate_arv\<close> (of the deal analyzer and of the
  dashboard) returns the list price times 1.5 and does not raise; with list
  price 300000 it returns 450000.
\<close>

theorem calculate_arv_fallback:
  "comps p = [] \<or> (\<forall>c \<in> set (comps p). c_square_feet c \<le> 0) \<Longrightarrow>
     calculate_arv p = Inr (list_price p * (15 / 10))
     \<and> dashboard_calculate_arv D p = Inr (list_price p * (15 / 10))
     \<and> (list_price p = 300000 \<longrightarrow> calculate_arv p = Inr 450000)"
proof -
  assume h: "comps p = [] \<or> (\<forall>c \<in> set (comps p). c_square_feet c \<le> 0)"
  then have "filter (\<lambda>c. c_square_feet c > 0) (comps p) = []"
    by (auto simp add: filter_empty_conv not_less)
  then have "comp_psf (comps p) = Inr []" by (simp add: comp_psf_eq samples_def)
  then show ?thesis
    by (simp add: calculate_arv_def dashboard_calculate_arv_def)
qed

theorem calculate_arv_fallback_witness:
  "comps (example_property\<lparr>list_price := 300000\<rparr>) = []
   \<and> calculate_arv (example_property\<lparr>list_price := 300000\<rparr>) = Inr 450000
   \<and> calculate_arv (example_property\<lparr>comps := [example_comp\<lparr>c_square_feet := 0\<rparr>]\<rparr>) = Inr 300000"
proof -
  have a: "comps (example_property\<lparr>list_price := 300000\<rparr>) = []
      \<or> (\<forall>c \<in> set (comps (example_property\<lparr>list_price := 300000\<rparr>)). c_square_feet c \<le> 0)"
    by (simp add: example_property_def)
  have b: "comps (example_property\<lparr>comps := [example_comp\<lparr>c_square_feet := 0\<rparr>]\<rparr>) = []
      \<or> (\<forall>c \<in> set (comps (example_property\<lparr>comps := [example_comp\<lparr>c_square_feet := 0\<rparr>]\<rparr>)).
            c_square_feet c \<le> 0)"
    by simp
  from calculate_arv_fallback [OF a] calculate_arv_fallback [OF b] show ?thesis
    by (simp add: example_property_def)
qed






section \<open>Properties of the comp filter\<close>

text \<open>On dates of four-digit years, the order of the \<^verbatim>\<open>%Y-%m-%d\<close> strings is the
  order of the dates.\<close>

lemma digit_char_less: "a < 10 \<Longrightarrow> b < 10 \<Longrightarrow> digit_char a < digit_char b \<longleftrightarrow> a < b"
  by (simp add: digit_char_def less_char_def)

lemma digit_char_eq: "a < 10 \<Longrightarrow> b < 10 \<Longrightarrow> digit_char a = digit_char b \<longleftrightarrow> a = b"
proof
  assume h: "a < 10" "b < 10" "digit_char a = digit_char b"
  then have "of_char (digit_char a) = (of_char (digit_char b) :: nat)" by simp
  with h show "a = b" by (simp add: digit_char_def)
qed simp


lemma two_digits_less:
  fixes a b :: nat
  shows "a < b \<longleftrightarrow> a div 10 < b div 10 \<or> (a div 10 = b div 10 \<and> a mod 10 < b mod 10)"
proof -
  have "a = 10 * (a div 10) + a mod 10" "b = 10 * (b div 10) + b mod 10" by simp_all
  moreover have "a mod 10 < 10" "b mod 10 < 10" by simp_all
  ultimately show ?thesis by linarith
qed

lemma two_digits_eq:
  fixes a b :: nat
  shows "a = b \<longleftrightarrow> a div 10 = b div 10 \<and> a mod 10 = b mod 10"
  by (metis div_mult_mod_eq)

lemma pad2_le:
  assumes "a < 100" "b < 100"
  shows "pad2 a @ s \<le> pad2 b @ t \<longleftrightarrow> a < b \<or> (a = b \<and> s \<le> t)"
proof -
  have d: "a div 10 < 10" "b div 10 < 10" "a mod 10 < 10" "b mod 10 < 10"
    using assms by simp_all
  have "pad2 a @ s \<le> pad2 b @ t \<longleftrightarrow>
      a div 10 < b div 10 \<or> (a div 10 = b div 10 \<and> (a mod 10 < b mod 10 \<or> (a mod 10 = b mod 10 \<and> s \<le> t)))"
    unfolding pad2_def by (simp add: digit_char_less digit_char_eq d)
  also have "\<dots> \<longleftrightarrow> a < b \<or> (a = b \<and> s \<le> t)"
    using two_digits_less [of a b] two_digits_eq [of a b] by blast
  finally show ?thesis .
qed


lemma hundreds_less:
  fixes a b :: nat
  shows "a < b \<longleftrightarrow> a div 100 < b div 100 \<or> (a div 100 = b div 100 \<and> a mod 100 < b mod 100)"
proof -
  have "a = 100 * (a div 100) + a mod 100" "b = 100 * (b div 100) + b mod 100" by simp_all
  moreover have "a mod 100 < 100" "b mod 100 < 100" by simp_all
  ultimately show ?thesis by linarith
qed

lemma hundreds_eq:
  fixes a b :: nat
  shows "a = b \<longleftrightarrow> a div 100 = b div 100 \<and> a mod 100 = b mod 100"
  by (metis div_mult_mod_eq)

lemma pad4_le:
  assumes "a < 10000" "b < 10000"
  shows "pad4 a @ s \<le> pad4 b @ t \<longleftrightarrow> a < b \<or> (a = b \<and> s \<le> t)"
proof -
  have d: "a div 100 < 100" "b div 100 < 100" "a mod 100 < 100" "b mod 100 < 100"
    using assms by simp_all
  have "pad4 a @ s \<le> pad4 b @ t \<longleftrightarrow>
      pad2 (a div 100) @ (pad2 (a mod 100) @ s) \<le> pad2 (b div 100) @ (pad2 (b mod 100) @ t)"
    unfolding pad4_def by simp
  also have "\<dots> \<longleftrightarrow> a div 100 < b div 100
      \<or> (a div 100 = b div 100 \<and> (a mod 100 < b mod 100 \<or> (a mod 100 = b mod 100 \<and> s \<le> t)))"
    by (simp only: pad2_le [OF d(1,2)] pad2_le [OF d(3,4)])
  also have "\<dots> \<longleftrightarrow> a < b \<or> (a = b \<and> s \<le> t)"
    using hundreds_less [of a b] hundreds_eq [of a b] by blast
  finally show ?thesis .
qed

lemma dash_le: "''-'' @ s \<le> ''-'' @ t \<longleftrightarrow> s \<le> t"
  by simp

lemma strftime_le:
  assumes "valid_date a" "valid_date b"
  shows "strftime a \<le> strftime b \<longleftrightarrow> date_le a b"
proof -
  have y: "date_year a < 10000" "date_year b < 10000"
    and m: "date_month a < 100" "date_month b < 100"
    and d: "date_day a < 100" "date_day b < 100"
    using assms by (simp_all add: valid_date_def)
  have last: "pad2 (date_day a) \<le> pad2 (date_day b) \<longleftrightarrow> date_day a \<le> date_day b"
    using pad2_le [OF d, of "[]" "[]"] by auto
  show ?thesis
    unfolding strftime_def date_le_def
    by (simp only: pad4_le [OF y] pad2_le [OF m] dash_le last)
qed

lemma filter_loop_eq:
  "filter_loop lo hi md cd cs acc =
     acc @ filter (\<lambda>c. c_square_feet c \<ge> lo \<and> c_square_feet c \<le> hi \<and> c_distance c \<le> md \<and> c_sale_date c \<ge> cd) cs"
  by (induction cs arbitrary: acc) simp_all

lemma filter_comps_eq:
  "filter_comps D now_minus p =
     filter (\<lambda>c. c_square_feet c \<ge> square_feet p * min_comp_sqft_pct D
                \<and> c_square_feet c \<le> square_feet p * max_comp_sqft_pct D
                \<and> c_distance c \<le> use_comps_within_miles D
                \<and> c_sale_date c \<ge> strftime (now_minus (max_comp_age_months D * 30))) (comps p)"
  by (simp add: filter_comps_def filter_loop_eq Let_def)

text \<open>
  C7. When the comps' sale dates are the \<^verbatim>\<open>%Y-%m-%d\<close> strings of dates (\<open>sale c\<close> the
  date of comp \<open>c\<close>), the comp filter returns exactly the comps, in their order,
  that satisfy all four constraints: square footage at least the subject's times
  \<open>min_pct\<close> and at most the subject's times \<open>max_pct\<close>, distance at most the
  maximum distance, and sale date on or after the date of
  \<open>now - 30 \<times> max_age_months\<close> days. A comp at distance 2 is never returned when
  the maximum distance is 1, whatever its other fields.
\<close>

theorem filter_comps_spec:
  "(valid_date (now_minus (max_comp_age_months D * 30))
     \<and> (\<forall>c \<in> set (comps p). c_sale_date c = strftime (sale c) \<and> valid_date (sale c))
    \<longrightarrow> filter_comps D now_minus p =
          filter (\<lambda>c. square_feet p * min_comp_sqft_pct D \<le> c_square_feet c
                     \<and> c_square_feet c \<le> square_feet p * max_comp_sqft_pct D
                     \<and> c_distance c \<le> use_comps_within_miles D
                     \<and> date_le (now_minus (max_comp_age_months D * 30)) (sale c)) (comps p))
   \<and> (use_comps_within_miles D = 1 \<and> c_distance x = 2 \<longrightarrow> x \<notin> set (filter_comps D now_minus p))"
proof (intro conjI impI)
  assume h: "valid_date (now_minus (max_comp_age_months D * 30))
     \<and> (\<forall>c \<in> set (comps p). c_sale_date c = strftime (sale c) \<and> valid_date (sale c))"
  show "filter_comps D now_minus p =
          filter (\<lambda>c. square_feet p * min_comp_sqft_pct D \<le> c_square_feet c
                     \<and> c_square_feet c \<le> square_feet p * max_comp_sqft_pct D
                     \<and> c_distance c \<le> use_comps_within_miles D
                     \<and> date_le (now_minus (max_comp_age_months D * 30)) (sale c)) (comps p)"
    unfolding filter_comps_eq
  proof (rule filter_cong [OF refl])
    fix c assume "c \<in> set (comps p)"
    with h have "c_sale_date c = strftime (sale c)" "valid_date (sale c)"
      "valid_date (now_minus (max_comp_age_months D * 30))" by simp_all
    then show "(square_feet p * min_comp_sqft_pct D \<le> c_square_feet c \<and>
          c_square_feet c \<le> square_feet p * max_comp_sqft_pct D \<and>
          c_distance c \<le> use_comps_within_miles D \<and>
          strftime (now_minus (max_comp_age_months D * 30)) \<le> c_sale_date c) =
         (square_feet p * min_comp_sqft_pct D \<le> c_square_feet c \<and>
          c_square_feet c \<le> square_feet p * max_comp_sqft_pct D \<and>
          c_distance c \<le> use_comps_within_miles D \<and>
          date_le (now_minus (max_comp_age_months D * 30)) (sale c))"
      by (simp only: strftime_le)
  qed
next
  assume "use_comps_within_miles D = 1 \<and> c_distance x = 2"
  then show "x \<notin> set (filter_comps D now_minus p)"
    by (simp add: filter_comps_eq)
qed

lemma example_strftime:
  "strftime \<lparr> date_year = 2026, date_month = 6, date_day = 15 \<rparr> = ''2026-06-15''"
  "strftime \<lparr> date_year = 2025, date_month = 2, date_day = 3 \<rparr> = ''2025-02-03''"
  by (simp_all add: strftime_def pad4_def pad2_def digit_char_def char_of_def bit_Suc_0_iff)

theorem filter_comps_spec_witness:
  "valid_date example_cutoff
   \<and> filter_comps example_dashboard (\<lambda>n. example_cutoff) (example_property\<lparr>comps := example_comps\<rparr>)
       = [example_comp]
   \<and> example_comp\<lparr>c_distance := 2\<rparr>
       \<notin> set (filter_comps example_dashboard (\<lambda>n. example_cutoff) (example_property\<lparr>comps := example_comps\<rparr>))"
proof -
  let ?p = "example_property\<lparr>comps := example_comps\<rparr>"
  have v: "valid_date ((\<lambda>n. example_cutoff) (max_comp_age_months example_dashboard * 30))"
    by (simp add: valid_date_def example_cutoff_def)
  have s: "\<forall>c \<in> set (comps ?p). c_sale_date c = strftime (example_sale c) \<and> valid_date (example_sale c)"
    by (simp add: example_comps_def example_comp_def example_sale_def example_strftime valid_date_def)
  have d: "use_comps_within_miles example_dashboard = 1 \<and> c_distance (example_comp\<lparr>c_distance := 2\<rparr>) = 2"
    by (simp add: example_dashboard_def)
  note t = filter_comps_spec [of "\<lambda>n. example_cutoff" example_dashboard ?p example_sale "example_comp\<lparr>c_distance := 2\<rparr>"]
  from t v s have "filter_comps example_dashboard (\<lambda>n. example_cutoff) ?p =
      filter (\<lambda>c. square_feet ?p * min_comp_sqft_pct example_dashboard \<le> c_square_feet c
                     \<and> c_square_feet c \<le> square_feet ?p * max_comp_sqft_pct example_dashboard
                     \<and> c_distance c \<le> use_comps_within_miles example_dashboard
                     \<and> date_le example_cutoff (example_sale c)) (comps ?p)"
    by blast
  also have "\<dots> = [example_comp]"
    by (simp add: example_comps_def example_comp_def example_sale_def example_property_def
        example_dashboard_def example_cutoff_def date_le_def)
  finally have r: "filter_comps example_dashboard (\<lambda>n. example_cutoff) ?p = [example_comp]" .
  from t d have "example_comp\<lparr>c_distance := 2\<rparr> \<notin> set (filter_comps example_dashboard (\<lambda>n. example_cutoff) ?p)"
    by blast
  with r v show ?thesis by simp
qed

section \<open>Properties of the scorer\<close>

lemma py_max_eq: "vs \<noteq> [] \<Longrightarrow> py_max vs = Max (set vs)"
proof (cases vs)
  case (Cons v rest)
  show ?thesis unfolding Cons py_max_def by (simp only: list.case Max.set_eq_fold)
qed simp

lemma py_min_eq: "vs \<noteq> [] \<Longrightarrow> py_min vs = Min (set vs)"
proof (cases vs)
  case (Cons v rest)
  show ?thesis unfolding Cons py_min_def by (simp only: list.case Min.set_eq_fold)
qed simp

lemma range_pos_iff:
  fixes vs :: "real list"
  assumes "vs \<noteq> []"
  shows "Max (set vs) - Min (set vs) > 0 \<longleftrightarrow> Max (set vs) \<noteq> Min (set vs)"
proof -
  from assms obtain v where "v \<in> set vs" by (cases vs) auto
  then have "Min (set vs) \<le> v" "v \<le> Max (set vs)" by simp_all
  then show ?thesis by auto
qed

lemma keyword_bonus:
  "0 \<le> w \<Longrightarrow> (if kws \<noteq> [] then s + min w (real (length kws)) else s) = s + min w (real (length kws))"
  by simp

text \<open>Behind its test a division never raises: on a non-empty batch every deal
  gets a score, the one of the specification.\<close>

lemma guarded_division:
  fixes vs :: "real list"
  assumes "vs \<noteq> []"
  shows "(if Max (set vs) - Min (set vs) > 0
          then and_then (truediv a (Max (set vs) - Min (set vs))) f
          else Inr s)
         = (if Max (set vs) = Min (set vs) then Inr s
            else f (a / (Max (set vs) - Min (set vs))))"
  using range_pos_iff [OF assms] by (simp add: and_then_def truediv_def)

lemma deal_score_spec:
  assumes "deals \<noteq> []" and "0 \<le> opportunity_keywords_weight S"
  shows "deal_score S
           (Min (set (map potential_profit deals)))
           (Max (set (map potential_profit deals)) - Min (set (map potential_profit deals)))
           (Min (set (map roi deals)))
           (Max (set (map roi deals)) - Min (set (map roi deals)))
           (Min (set (map repair_costs deals)))
           (Max (set (map repair_costs deals)) - Min (set (map repair_costs deals)))
           (Min (set (map deal_dom deals)))
           (Max (set (map deal_dom deals)) - Min (set (map deal_dom deals))) d
         = Inr (spec_score S deals d)"
proof -
  have ne: "map potential_profit deals \<noteq> []" "map roi deals \<noteq> []"
    "map repair_costs deals \<noteq> []" "map deal_dom deals \<noteq> []"
    using assms(1) by simp_all
  show ?thesis
    unfolding deal_score_def spec_score_def normalized_def normalized_inverted_def bonus_def Let_def
      guarded_division [OF ne(1)] guarded_division [OF ne(2)] guarded_division [OF ne(3)]
      guarded_division [OF ne(4)] keyword_bonus [OF assms(2)]
    by (simp add: and_then_def)
qed

lemma score_loop_eq:
  assumes "\<And>d. f d = Inr (g d)"
  shows "score_loop f ds acc = Inr (acc @ map (\<lambda>d. d\<lparr>score := g d\<rparr>) ds)"
  by (induction ds arbitrary: acc) (simp_all add: assms)

lemma score_deals_eq:
  assumes "deals \<noteq> []" and "0 \<le> opportunity_keywords_weight S"
  shows "score_deals S deals
         = Inr (sort_key (\<lambda>x. - score x) (map (\<lambda>d. d\<lparr>score := spec_score S deals d\<rparr>) deals))"
proof -
  have ne: "map potential_profit deals \<noteq> []" "map roi deals \<noteq> []"
    "map repair_costs deals \<noteq> []" "map deal_dom deals \<noteq> []"
    using assms(1) by simp_all
  have "score_deals S deals =
      and_then (score_loop (\<lambda>d. deal_score S
           (Min (set (map potential_profit deals)))
           (Max (set (map potential_profit deals)) - Min (set (map potential_profit deals)))
           (Min (set (map roi deals)))
           (Max (set (map roi deals)) - Min (set (map roi deals)))
           (Min (set (map repair_costs deals)))
           (Max (set (map repair_costs deals)) - Min (set (map repair_costs deals)))
           (Min (set (map deal_dom deals)))
           (Max (set (map deal_dom deals)) - Min (set (map deal_dom deals))) d) deals [])
        (\<lambda>scored_deals. Inr (sort_key (\<lambda>x. - score x) scored_deals))"
    unfolding score_deals_def Let_def
    using assms(1)
    by (simp only: ne if_True if_False py_max_eq [OF ne(1)] py_max_eq [OF ne(2)]
        py_max_eq [OF ne(3)] py_max_eq [OF ne(4)] py_min_eq [OF ne(1)] py_min_eq [OF ne(2)]
        py_min_eq [OF ne(3)] py_min_eq [OF ne(4)] not_False_eq_True)
  also have "\<dots> = Inr (sort_key (\<lambda>x. - score x)
      (map (\<lambda>d. d\<lparr>score := spec_score S deals d\<rparr>) deals))"
    by (simp only: score_loop_eq [OF deal_score_spec [OF assms]] and_then_def sum.case append_Nil)
  finally show ?thesis .
qed

lemma sorted_descending:
  "sorted_wrt (\<lambda>a b. score a \<ge> score b) (sort_key (\<lambda>x. - score x) xs)"
proof -
  have "sorted (map (\<lambda>x. - score x) (sort_key (\<lambda>x. - score x) xs))" by (rule sorted_sort_key)
  then show ?thesis by (simp add: sorted_map)
qed

lemma normalized_constant:
  assumes "vs \<noteq> []" and "\<forall>v \<in> set vs. v = c"
  shows "normalized w x vs = 0" and "normalized_inverted w x vs = 0"
proof -
  from assms have "set vs = {c}" by (cases vs) auto
  then show "normalized w x vs = 0" and "normalized_inverted w x vs = 0"
    by (simp_all add: normalized_def normalized_inverted_def)
qed

lemma spec_score_identical:
  assumes "deals \<noteq> []"
    and "\<forall>d \<in> set deals. potential_profit d = P \<and> roi d = R \<and> repair_costs d = C \<and> deal_dom d = M"
  shows "spec_score S deals d = bonus S d"
proof -
  have "normalized (profit_weight S) (potential_profit d) (map potential_profit deals) = 0"
    by (rule normalized_constant [where c = P]) (use assms in auto)
  moreover have "normalized (roi_weight S) (roi d) (map roi deals) = 0"
    by (rule normalized_constant [where c = R]) (use assms in auto)
  moreover have "normalized_inverted (repair_cost_weight S) (repair_costs d) (map repair_costs deals) = 0"
    by (rule normalized_constant [where c = C]) (use assms in auto)
  moreover have "normalized (dom_weight S) (deal_dom d) (map deal_dom deals) = 0"
    by (rule normalized_constant [where c = M]) (use assms in auto)
  ultimately show ?thesis by (simp add: spec_score_def)
qed

lemma bonus_score_update: "bonus S (d\<lparr>score := x\<rparr>) = bonus S d"
  by (simp add: bonus_def)

text \<open>
  C6. For every non-empty batch (and a keyword cap that is not negative, as the
  configured 5), \<^verbatim>\<open>score_deals\<close> returns, without raising at any of its divisions,
  the batch in which each deal has the score of the specification:
  \<open>weight \<times> (value - min) / (max - min)\<close> for profit, ROI and days on market,
  \<open>weight \<times> (1 - (value - min) / (max - min))\<close> for the repair costs, each 0 when
  the maximum of the batch equals its minimum (the division is not evaluated),
  plus \<open>min(cap, number of keywords)\<close>, plus the flat bonus when the deal meets
  the 70% rule; the batch is sorted (stably) in descending order of the score.
  When all deals share profit, ROI, repair costs and days on market, each score
  is the bonus alone and the batch is ranked by it.
\<close>

theorem score_deals_spec:
  assumes "deals \<noteq> []" and "0 \<le> opportunity_keywords_weight S"
  shows "\<exists>ranked. score_deals S deals = Inr ranked
    \<and> ranked = sort_key (\<lambda>x. - score x) (map (\<lambda>d. d\<lparr>score := spec_score S deals d\<rparr>) deals)
    \<and> sorted_wrt (\<lambda>a b. score a \<ge> score b) ranked
    \<and> ((\<forall>d \<in> set deals. potential_profit d = P \<and> roi d = R \<and> repair_costs d = C \<and> deal_dom d = M)
        \<longrightarrow> (\<forall>d \<in> set ranked. score d = bonus S d)
            \<and> sorted_wrt (\<lambda>a b. bonus S a \<ge> bonus S b) ranked)"
proof -
  define ranked where
    "ranked = sort_key (\<lambda>x. - score x) (map (\<lambda>d. d\<lparr>score := spec_score S deals d\<rparr>) deals)"
  have eq: "score_deals S deals = Inr ranked"
    unfolding ranked_def by (rule score_deals_eq [OF assms])
  have srt: "sorted_wrt (\<lambda>a b. score a \<ge> score b) ranked"
    unfolding ranked_def by (rule sorted_descending)
  have ident: "(\<forall>d \<in> set ranked. score d = bonus S d)
            \<and> sorted_wrt (\<lambda>a b. bonus S a \<ge> bonus S b) ranked"
    if h: "\<forall>d \<in> set deals. potential_profit d = P \<and> roi d = R \<and> repair_costs d = C \<and> deal_dom d = M"
  proof -
    have a: "\<forall>d \<in> set ranked. score d = bonus S d"
      unfolding ranked_def
      by (auto simp add: spec_score_identical [OF assms(1) h] bonus_score_update)
    have "sorted_wrt (\<lambda>a b. bonus S a \<ge> bonus S b) ranked"
      by (rule sorted_wrt_mono_rel [OF _ srt]) (use a in auto)
    with a show ?thesis by simp
  qed
  from eq srt ident ranked_def show ?thesis by blast
qed

lemma example_batch_identical:
  "\<forall>d \<in> set [example_deal, example_deal_bonus].
     potential_profit d = 51600 \<and> roi d = 51600 / 268400 * 100 \<and> repair_costs d = 30000
     \<and> deal_dom d = 30"
  by (simp add: example_deal_def example_deal_bonus_def deal_dom_def to_dict_def example_property_def)

lemma example_bonus:
  "bonus default_settings example_deal = 0" "bonus default_settings example_deal_bonus = 7"
  by (simp_all add: bonus_def example_deal_def example_deal_bonus_def default_settings_def
      to_dict_def example_property_def)

theorem score_deals_spec_witness:
  "[example_deal, example_deal_bonus] \<noteq> [] \<and> 0 \<le> opportunity_keywords_weight default_settings
   \<and> score_deals default_settings [example_deal, example_deal_bonus]
       = Inr [example_deal_bonus\<lparr>score := 7\<rparr>, example_deal\<lparr>score := 0\<rparr>]"
proof -
  have ne: "[example_deal, example_deal_bonus] \<noteq> []" by simp
  have w: "0 \<le> opportunity_keywords_weight default_settings" by (simp add: default_settings_def)
  note s = spec_score_identical [OF ne example_batch_identical, of default_settings]
  from score_deals_spec [OF ne w] have
    "score_deals default_settings [example_deal, example_deal_bonus]
       = Inr (sort_key (\<lambda>x. - score x)
           (map (\<lambda>d. d\<lparr>score := spec_score default_settings [example_deal, example_deal_bonus] d\<rparr>)
             [example_deal, example_deal_bonus]))"
    by blast
  also have "\<dots> = Inr [example_deal_bonus\<lparr>score := 7\<rparr>, example_deal\<lparr>score := 0\<rparr>]"
    by (simp add: s example_bonus)
  finally show ?thesis using w by simp
qed

section \<open>Properties of the renovation-level classifier\<close>

lemma startswith_map: "startswith s k \<Longrightarrow> startswith (map f s) (map f k)"
  by (induction s k rule: startswith.induct) simp_all

lemma py_in_map: "py_in k s \<Longrightarrow> py_in (map f k) (map f s)"
proof (induction s)
  case Nil
  then show ?case by simp
next
  case (Cons c s)
  from Cons.prems have "startswith (c # s) k \<or> py_in k s" by simp
  then show ?case
  proof
    assume "startswith (c # s) k"
    then have "startswith (map f (c # s)) (map f k)" by (rule startswith_map)
    then show ?thesis by simp
  next
    assume "py_in k s"
    then have "py_in (map f k) (map f s)" by (rule Cons.IH)
    then show ?thesis by simp
  qed
qed

lemma py_in_lower: "py_in k s \<Longrightarrow> lower k = k \<Longrightarrow> py_in k (lower s)"
  using py_in_map [of k s lower_char] by (simp add: lower_def)

lemma lower_words:
  "lower ''foundation'' = ''foundation''" "lower ''electrical'' = ''electrical''"
  by (simp_all add: lower_def lower_char_def)

lemma two_serious_issues:
  assumes "py_in ''foundation'' d" and "py_in ''electrical'' d"
  shows "serious_issues d \<ge> 2"
  using assms by (simp add: serious_issues_def any_in_def Let_def)

text \<open>
  C8. The classifier evaluates its table in order, first match winning:
  \<open>Extensive\<close> when the extensive count or the number of serious issues is at
  least 2; else \<open>Moderate\<close> when the extensive count is at least 1, the moderate
  count at least 2 or a serious issue is present; else, with a moderate count
  of at least 1, \<open>Moderate\<close> on a cosmetic baseline and the baseline otherwise; else
  the baseline. A description in which "foundation" and "electrical" occur (in
  any letter case) has two serious issues and is classified \<open>Extensive\<close>,
  whatever the age baseline and the keywords.
\<close>

theorem estimate_renovation_level_table:
  "estimate_renovation_level p =
     (if indicator_count extensive_indicators (opportunity_keywords p) (lower (description p)) \<ge> 2
         \<or> serious_issues (lower (description p)) \<ge> 2
      then Extensive
      else if indicator_count extensive_indicators (opportunity_keywords p) (lower (description p)) \<ge> 1
         \<or> indicator_count moderate_indicators (opportunity_keywords p) (lower (description p)) \<ge> 2
         \<or> serious_issues (lower (description p)) \<ge> 1
      then Moderate
      else if indicator_count moderate_indicators (opportunity_keywords p) (lower (description p)) \<ge> 1
      then (if base_level (age p) = Cosmetic then Moderate else base_level (age p))
      else base_level (age p))
   \<and> (py_in ''foundation'' (lower (description p)) \<and> py_in ''electrical'' (lower (description p))
        \<longrightarrow> serious_issues (lower (description p)) \<ge> 2 \<and> estimate_renovation_level p = Extensive)
   \<and> (py_in ''foundation'' (description p) \<and> py_in ''electrical'' (description p)
        \<longrightarrow> estimate_renovation_level p = Extensive)"
proof -
  have table: "estimate_renovation_level p =
     (if indicator_count extensive_indicators (opportunity_keywords p) (lower (description p)) \<ge> 2
         \<or> serious_issues (lower (description p)) \<ge> 2
      then Extensive
      else if indicator_count extensive_indicators (opportunity_keywords p) (lower (description p)) \<ge> 1
         \<or> indicator_count moderate_indicators (opportunity_keywords p) (lower (description p)) \<ge> 2
         \<or> serious_issues (lower (description p)) \<ge> 1
      then Moderate
      else if indicator_count moderate_indicators (opportunity_keywords p) (lower (description p)) \<ge> 1
      then (if base_level (age p) = Cosmetic then Moderate else base_level (age p))
      else base_level (age p))"
    by (simp only: estimate_renovation_level_def decide_def Let_def)
  have low: "serious_issues (lower (description p)) \<ge> 2 \<and> estimate_renovation_level p = Extensive"
    if "py_in ''foundation'' (lower (description p)) \<and> py_in ''electrical'' (lower (description p))"
  proof -
    from that have "serious_issues (lower (description p)) \<ge> 2" by (simp add: two_serious_issues)
    then show ?thesis by (simp add: table)
  qed
  have raw: "estimate_renovation_level p = Extensive"
    if "py_in ''foundation'' (description p) \<and> py_in ''electrical'' (description p)"
  proof -
    from that have "py_in ''foundation'' (lower (description p)) \<and> py_in ''electrical'' (lower (description p))"
      by (simp add: py_in_lower lower_words)
    then show ?thesis using low by simp
  qed
  from table low raw show ?thesis by blast
qed

lemma example_contains:
  "py_in ''foundation'' (lower (description example_property))"
  "py_in ''electrical'' (lower (description example_property))"
  by (simp_all add: example_property_def lower_def lower_char_def char_of_def bit_Suc_0_iff)

theorem estimate_renovation_level_table_witness:
  "py_in ''foundation'' (lower (description example_property))
   \<and> py_in ''electrical'' (lower (description example_property))
   \<and> estimate_renovation_level example_property = Extensive
   \<and> estimate_renovation_level (example_property\<lparr>age := Some 5\<rparr>) = Extensive
   \<and> estimate_renovation_level
        (example_property\<lparr>description := ''foundation settling, electrical not to code'', age := None\<rparr>)
       = Extensive"
proof -
  have a: "py_in ''foundation'' (lower (description (example_property\<lparr>age := Some 5\<rparr>)))
      \<and> py_in ''electrical'' (lower (description (example_property\<lparr>age := Some 5\<rparr>)))"
    using example_contains by simp
  have b: "py_in ''foundation'' (description (example_property\<lparr>description := ''foundation settling, electrical not to code'', age := None\<rparr>))
      \<and> py_in ''electrical'' (description (example_property\<lparr>description := ''foundation settling, electrical not to code'', age := None\<rparr>))"
    by simp
  from estimate_renovation_level_table [of example_property]
    estimate_renovation_level_table [of "example_property\<lparr>age := Some 5\<rparr>"] a
    estimate_renovation_level_table [of "example_property\<lparr>description := ''foundation settling, electrical not to code'', age := None\<rparr>"] b
    example_contains
  show ?thesis by blast
qed

end
